theory Spec2Isabelle
  imports Main "HOL-Library.Sublist"
begin

section \<open>Shopi-Py: shop pages, selectors and navigation (shop.py)\<close>

text \<open>
  A shallow embedding of \<^verbatim>\<open>src/shopipy_enderelijas/shop.py\<close>.

  \<^item> Python objects that are mutated or compared by identity (the \<^verbatim>\<open>ShopPage\<close> views)
    live in an explicit store: a page reference is a natural number and the store maps
    every reference to the object it denotes. \<^verbatim>\<open>ShopCategory.navigate_to\<close> and
    the two fields of a \<^verbatim>\<open>NavigationHandler\<close> are such references.
  \<^item> Immutable data (\<^verbatim>\<open>Shop\<close>, \<^verbatim>\<open>ShopItem\<close>, \<^verbatim>\<open>ShopCategory\<close>, the embed) are
    values.
  \<^item> A Python exception is a value of type \<open>error\<close>.
  \<^item> The chat platform (\<^verbatim>\<open>discord\<close>) is reduced to what the code uses of it:
    \<^verbatim>\<open>View.add_item\<close> appends to the view's children, \<^verbatim>\<open>Embed.add_field\<close> appends a
    field, \<^verbatim>\<open>edit_message\<close> and \<^verbatim>\<open>send_message\<close> are recorded in the session's log.
\<close>

subsection \<open>Catalog model\<close>

type_synonym ref = nat

record Shop =
  s_title :: string
  currency :: string
  s_footer :: "string option"
  s_description :: "string option"

record ShopItem =
  i_id :: string
  i_name :: string
  i_description :: string
  price :: int
  category_id :: string
  i_icon :: "string option"
  i_fields :: "string list"

record ShopCategory =
  c_id :: string
  c_name :: string
  navigate_to :: ref
  c_description :: "string option"
  c_icon :: "string option"

text \<open>
  A listing is a Python list whose elements are told apart at run time by
  \<^verbatim>\<open>isinstance\<close>; an element is one of the two dataclasses.
\<close>

datatype entry = Item ShopItem | Category ShopCategory

fun entry_id :: "entry \<Rightarrow> string" where
  "entry_id (Item i) = i_id i"
| "entry_id (Category c) = c_id c"

fun entry_name :: "entry \<Rightarrow> string" where
  "entry_name (Item i) = i_name i"
| "entry_name (Category c) = c_name c"

fun entry_icon :: "entry \<Rightarrow> string option" where
  "entry_icon (Item i) = i_icon i"
| "entry_icon (Category c) = c_icon c"

fun is_ShopCategory :: "entry \<Rightarrow> bool" where
  "is_ShopCategory (Category c) = True"
| "is_ShopCategory (Item i) = False"

fun is_ShopItem :: "entry \<Rightarrow> bool" where
  "is_ShopItem (Item i) = True"
| "is_ShopItem (Category c) = False"

text \<open>
  Truthiness of an element: both dataclasses define neither \<^verbatim>\<open>__bool__\<close> nor
  \<^verbatim>\<open>__len__\<close>, so every instance is truthy.
\<close>

fun truthy :: "entry \<Rightarrow> bool" where
  "truthy (Item i) = True"
| "truthy (Category c) = True"

definition homogeneous :: "entry list \<Rightarrow> bool" where
  "homogeneous l = (list_all is_ShopItem l \<or> list_all is_ShopCategory l)"

definition mixed :: "entry list \<Rightarrow> bool" where
  "mixed l = (list_ex is_ShopItem l \<and> list_ex is_ShopCategory l)"

subsection \<open>Errors\<close>

text \<open>
  The exceptions the module can raise: \<^verbatim>\<open>IndexError\<close> from \<^verbatim>\<open>xs[0]\<close> on an empty
  list, the explicit \<^verbatim>\<open>ValueError\<close> of \<^verbatim>\<open>CategorySelector.callback\<close>, and
  \<^verbatim>\<open>AttributeError\<close> from reading \<^verbatim>\<open>navigate_to\<close> of a \<^verbatim>\<open>ShopItem\<close>.
\<close>

datatype error = IndexError | ValueError | AttributeError

subsection \<open>Text formatting\<close>

text \<open>\<^verbatim>\<open>x if x else ""\<close> on an optional string.\<close>

fun or_empty :: "string option \<Rightarrow> string" where
  "or_empty None = []"
| "or_empty (Some s) = (if s = [] then [] else s)"

definition digit_char :: "nat \<Rightarrow> char" where
  "digit_char d = ''0123456789'' ! d"

fun str_nat :: "nat \<Rightarrow> string" where
  "str_nat n = (if n < 10 then [digit_char n]
                else str_nat (n div 10) @ [digit_char (n mod 10)])"

declare str_nat.simps [simp del]

text \<open>Grouping of the reversed digits by three, a comma between groups.\<close>

fun group3 :: "string \<Rightarrow> string" where
  "group3 (a # b # c # d # r) = a # b # c # CHR '','' # group3 (d # r)"
| "group3 r = r"

text \<open>Python's \<^verbatim>\<open>format(n, ',d')\<close> on an unbounded integer.\<close>

definition format_comma_d :: "int \<Rightarrow> string" where
  "format_comma_d n =
     (if n < 0 then ''-'' else []) @ rev (group3 (rev (str_nat (nat \<bar>n\<bar>))))"

text \<open>\<^verbatim>\<open>sep.join(xs)\<close>.\<close>

fun join :: "string \<Rightarrow> string list \<Rightarrow> string" where
  "join sep [] = []"
| "join sep [x] = x"
| "join sep (x # y # r) = x @ sep @ join sep (y # r)"

definition newline :: string where
  "newline = [CHR 0x0A]"

subsection \<open>Embeds\<close>

record EmbedField =
  f_name :: string
  f_value :: string
  f_inline :: bool

record Embed =
  e_title :: string
  e_description :: string
  e_fields :: "EmbedField list"
  e_footer :: "string option"

definition add_field :: "string \<Rightarrow> string \<Rightarrow> bool \<Rightarrow> Embed \<Rightarrow> Embed" where
  "add_field n v inl e =
     e\<lparr>e_fields := e_fields e @ [\<lparr>f_name = n, f_value = v, f_inline = inl\<rparr>]\<rparr>"

definition set_footer :: "string option \<Rightarrow> Embed \<Rightarrow> Embed" where
  "set_footer t e = e\<lparr>e_footer := t\<rparr>"

text \<open>The body of the loop of \<^verbatim>\<open>ShopPage.__create_embed\<close>, for one element.\<close>

fun embed_entry :: "Shop \<Rightarrow> entry \<Rightarrow> Embed \<Rightarrow> Embed" where
  "embed_entry sh (Category c) e =
     add_field (or_empty (c_icon c) @ '' '' @ c_name c)
               (or_empty (c_description c))
               False e"
| "embed_entry sh (Item i) e =
     add_field (or_empty (i_icon i) @ '' '' @ i_name i @ '' | `'' @ format_comma_d (price i)
                  @ ''` '' @ currency sh)
               (''*'' @ i_description i @ ''*'' @ newline
                  @ replicate (length (i_description i) + 1) (CHR ''-'') @ newline
                  @ join newline (map (\<lambda>x. ''> '' @ x) (i_fields i)))
               False e"

definition create_embed ::
  "Shop \<Rightarrow> string \<Rightarrow> string \<Rightarrow> entry list \<Rightarrow> string option \<Rightarrow> Embed" where
  "create_embed sh t d its ft =
     set_footer ft
       (fold (embed_entry sh) its
          \<lparr>e_title = t @ '' | '' @ s_title sh, e_description = d, e_fields = [],
           e_footer = None\<rparr>)"

subsection \<open>Controls and pages\<close>

record NavigationHandler =
  to_page :: ref
  from_page :: ref

text \<open>
  The handler an \<^verbatim>\<open>ItemSelector\<close> is bound to: the caller's callable (identified by
  a number) or the selector's own \<^verbatim>\<open>on_select_default\<close>.
\<close>

datatype on_select = on_select_default | on_select_user nat

record SelectOption =
  label :: string
  opt_value :: string
  emoji :: "string option"

definition select_options :: "entry list \<Rightarrow> SelectOption list" where
  "select_options l =
     map (\<lambda>x. \<lparr>label = entry_name x, opt_value = entry_id x, emoji = entry_icon x\<rparr>) l"

datatype control =
    CategorySelector "entry list" "SelectOption list"
  | ItemSelector "entry list" on_select "SelectOption list"
  | BackButton NavigationHandler

fun is_BackButton :: "control \<Rightarrow> bool" where
  "is_BackButton (BackButton nh) = True"
| "is_BackButton (CategorySelector l os) = False"
| "is_BackButton (ItemSelector l h os) = False"

definition CategorySelector_init :: "entry list \<Rightarrow> control" where
  "CategorySelector_init categories = CategorySelector categories (select_options categories)"

definition ItemSelector_init :: "entry list \<Rightarrow> nat option \<Rightarrow> control" where
  "ItemSelector_init l os =
     ItemSelector l (case os of None \<Rightarrow> on_select_default | Some k \<Rightarrow> on_select_user k)
       (select_options l)"

record ShopPage =
  shop :: Shop
  title :: string
  items :: "entry list"
  description :: string
  footer :: "string option"
  embed :: Embed
  children :: "control list"

definition add_item :: "control \<Rightarrow> ShopPage \<Rightarrow> ShopPage" where
  "add_item c p = p\<lparr>children := children p @ [c]\<rparr>"

text \<open>
  \<^verbatim>\<open>ShopPage.__init__\<close>: the fields are set, the embed is built, and then
  \<^verbatim>\<open>items[0]\<close> decides which selector is attached; on an empty list that index
  raises.
\<close>

definition ShopPage_init ::
  "Shop \<Rightarrow> string \<Rightarrow> string \<Rightarrow> entry list \<Rightarrow> string option \<Rightarrow> nat option
     \<Rightarrow> error + ShopPage" where
  "ShopPage_init sh t d its ft os =
     (let self = \<lparr>shop = sh, title = t, items = its, description = d, footer = ft,
                  embed = create_embed sh t d its ft, children = []\<rparr>
      in case its of
           [] \<Rightarrow> Inl IndexError
         | x # r \<Rightarrow>
             if is_ShopCategory x then Inr (add_item (CategorySelector_init its) self)
             else Inr (add_item (ItemSelector_init its os) self))"

subsection \<open>Navigation\<close>

type_synonym store = "ref \<Rightarrow> ShopPage"

text \<open>
  \<^verbatim>\<open>NavigationHandler.navigate\<close>: when the children of \<^verbatim>\<open>to_page\<close> hold no
  \<^verbatim>\<open>BackButton\<close>, one bound to this handler is appended; \<^verbatim>\<open>to_page\<close> is returned.
\<close>

definition navigate :: "NavigationHandler \<Rightarrow> store \<Rightarrow> store \<times> ref" where
  "navigate nh h =
     (if filter is_BackButton (children (h (to_page nh))) = []
      then (h(to_page nh := add_item (BackButton nh) (h (to_page nh))), to_page nh)
      else (h, to_page nh))"

text \<open>\<^verbatim>\<open>NavigationHandler.go_back\<close>: returns \<^verbatim>\<open>from_page\<close>; nothing is written.\<close>

definition go_back :: "NavigationHandler \<Rightarrow> store \<Rightarrow> store \<times> ref" where
  "go_back nh h = (h, from_page nh)"

text \<open>\<^verbatim>\<open>navigate()\<close> called \<open>n\<close> times in a row on the same handler.\<close>

primrec navigate_times :: "nat \<Rightarrow> NavigationHandler \<Rightarrow> store \<Rightarrow> store" where
  "navigate_times 0 nh h = h"
| "navigate_times (Suc n) nh h = navigate_times n nh (fst (navigate nh h))"

definition back_controls :: "ShopPage \<Rightarrow> control list" where
  "back_controls p = filter is_BackButton (children p)"

subsection \<open>Sessions and callbacks\<close>

text \<open>
  What a callback asks of the platform: \<^verbatim>\<open>edit_message(embed=page.embed, view=page)\<close>,
  \<^verbatim>\<open>send_message(text)\<close>, or a call of the caller's \<^verbatim>\<open>on_select\<close> with the
  selected element.
\<close>

datatype effect =
    EditMessage Embed ref
  | SendMessage string
  | OnSelectCall nat entry

text \<open>
  One user's session: the store of pages, the page the message currently shows (its
  view), and the platform calls made so far.
\<close>

record session =
  heap :: store
  current :: ref
  trace :: "effect list"

definition edit_message :: "ref \<Rightarrow> session \<Rightarrow> session" where
  "edit_message page s =
     s\<lparr>current := page, trace := trace s @ [EditMessage (embed (heap s page)) page]\<rparr>"

definition send_message :: "string \<Rightarrow> session \<Rightarrow> session" where
  "send_message m s = s\<lparr>trace := trace s @ [SendMessage m]\<rparr>"

text \<open>\<^verbatim>\<open>BackButton.callback\<close>.\<close>

definition BackButton_callback :: "NavigationHandler \<Rightarrow> session \<Rightarrow> error option \<times> session" where
  "BackButton_callback nh s =
     (let (h, page) = go_back nh (heap s)
      in (None, edit_message page (s\<lparr>heap := h\<rparr>)))"

text \<open>
  \<^verbatim>\<open>CategorySelector.callback\<close>. The select has \<^verbatim>\<open>min_values = max_values = 1\<close>, so
  \<^verbatim>\<open>self.values[0]\<close> is the chosen value \<open>v\<close>; \<open>view\<close> is \<^verbatim>\<open>self.view\<close>, the page
  the selector sits on. The first statement indexes the list of matches with \<^verbatim>\<open>[0]\<close>.
\<close>

definition CategorySelector_callback ::
  "entry list \<Rightarrow> string \<Rightarrow> ref \<Rightarrow> session \<Rightarrow> error option \<times> session" where
  "CategorySelector_callback categories v view s =
     (case filter (\<lambda>category. entry_id category = v) categories of
        [] \<Rightarrow> (Some IndexError, s)
      | selected_category # r \<Rightarrow>
          if \<not> truthy selected_category then (Some ValueError, s)
          else (case selected_category of
                  Item i \<Rightarrow> (Some AttributeError, s)
                | Category c \<Rightarrow>
                    (let nav_handler = \<lparr>to_page = navigate_to c, from_page = view\<rparr>;
                         (h, page) = navigate nav_handler (heap s)
                     in (None, edit_message page (s\<lparr>heap := h\<rparr>)))))"

text \<open>\<^verbatim>\<open>ItemSelector.on_select_default\<close> and the call \<^verbatim>\<open>self.on_select(...)\<close>.\<close>

definition on_select_default_body :: "entry \<Rightarrow> session \<Rightarrow> session" where
  "on_select_default_body item s = send_message (''Succesfully purchased '' @ entry_name item) s"

fun call_on_select :: "on_select \<Rightarrow> entry \<Rightarrow> session \<Rightarrow> session" where
  "call_on_select on_select_default item s = on_select_default_body item s"
| "call_on_select (on_select_user k) item s = s\<lparr>trace := trace s @ [OnSelectCall k item]\<rparr>"

text \<open>\<^verbatim>\<open>ItemSelector.callback\<close>.\<close>

definition ItemSelector_callback ::
  "entry list \<Rightarrow> on_select \<Rightarrow> string \<Rightarrow> session \<Rightarrow> error option \<times> session" where
  "ItemSelector_callback its os v s =
     (case filter (\<lambda>item. entry_id item = v) its of
        [] \<Rightarrow> (Some IndexError, s)
      | selected_item # r \<Rightarrow> (None, call_on_select os selected_item s))"

text \<open>The platform dispatching a user action to the control it was made on.\<close>

fun callback :: "control \<Rightarrow> string \<Rightarrow> ref \<Rightarrow> session \<Rightarrow> error option \<times> session" where
  "callback (CategorySelector categories opts) v view s =
     CategorySelector_callback categories v view s"
| "callback (ItemSelector its os opts) v view s = ItemSelector_callback its os v s"
| "callback (BackButton nh) v view s = BackButton_callback nh s"

subsection \<open>A small catalog\<close>

definition ex_shop :: Shop where
  "ex_shop = \<lparr>s_title = ''General Store'', currency = ''gold'', s_footer = None,
              s_description = None\<rparr>"

definition ex_hammer :: ShopItem where
  "ex_hammer = \<lparr>i_id = ''a'', i_name = ''Hammer'', i_description = ''ab'', price = 1234,
                category_id = ''c1'', i_icon = None, i_fields = [''x'', ''yz'']\<rparr>"

definition ex_saw :: ShopItem where
  "ex_saw = \<lparr>i_id = ''b'', i_name = ''Saw'', i_description = ''cuts'', price = 50,
             category_id = ''c1'', i_icon = Some ''S'', i_fields = []\<rparr>"

definition ex_tools :: ShopCategory where
  "ex_tools = \<lparr>c_id = ''c1'', c_name = ''Tools'', navigate_to = 0, c_description = None,
               c_icon = None\<rparr>"

text \<open>The Tools page (two items) and two top pages that both list the Tools category.\<close>

definition ex_tools_page :: ShopPage where
  "ex_tools_page =
     projr (ShopPage_init ex_shop ''Tools'' ''All tools'' [Item ex_hammer, Item ex_saw] None None)"

definition ex_top_page :: ShopPage where
  "ex_top_page = projr (ShopPage_init ex_shop ''Top'' ''Welcome'' [Category ex_tools] None None)"

definition ex_other_page :: ShopPage where
  "ex_other_page = projr (ShopPage_init ex_shop ''Other'' ''Sale'' [Category ex_tools] None None)"

text \<open>Reference 0 is the Tools page, 1 the top page, every other one the second top page.\<close>

definition ex_heap :: store where
  "ex_heap = (\<lambda>r. ex_other_page)(0 := ex_tools_page, 1 := ex_top_page)"

definition ex_session :: session where
  "ex_session = \<lparr>heap = ex_heap, current = 1, trace = []\<rparr>"

section \<open>Properties\<close>

subsection \<open>Auxiliary facts\<close>

lemma ex_tools_page_no_back: "back_controls ex_tools_page = []"
  by (simp add: ex_tools_page_def ShopPage_init_def add_item_def back_controls_def
      ItemSelector_init_def)

lemma ex_top_page_no_back: "back_controls ex_top_page = []"
  by (simp add: ex_top_page_def ShopPage_init_def add_item_def back_controls_def
      CategorySelector_init_def ex_tools_def)

text \<open>A page fresh from its constructor carries no back-control.\<close>

lemma ShopPage_init_no_back:
  "ShopPage_init sh t d its ft os = Inr p \<Longrightarrow> back_controls p = []"
  by (cases its)
     (auto simp: ShopPage_init_def Let_def add_item_def back_controls_def
        CategorySelector_init_def ItemSelector_init_def split: if_splits)

text \<open>\<^verbatim>\<open>navigate\<close> keeps "at most one back-control" on every page of the store.\<close>

lemma navigate_at_most_one_back:
  "length (back_controls (h r)) \<le> 1 \<Longrightarrow> length (back_controls (fst (navigate nh h) r)) \<le> 1"
  by (auto simp: navigate_def back_controls_def add_item_def)

lemma navigate_back_one:
  "length (back_controls (h (to_page nh))) \<le> 1 \<Longrightarrow>
   length (back_controls (fst (navigate nh h) (to_page nh))) = 1"
  by (cases "filter is_BackButton (children (h (to_page nh)))")
     (auto simp: navigate_def back_controls_def add_item_def)

lemma navigate_times_back_one:
  "length (back_controls (h (to_page nh))) = 1 \<Longrightarrow>
   length (back_controls (navigate_times n nh h (to_page nh))) = 1"
  by (induction n arbitrary: h) (simp_all add: navigate_back_one)

text \<open>The loop of \<^verbatim>\<open>__create_embed\<close> adds one field per element, in order.\<close>

lemma fold_embed_entry_fields:
  "e_fields (fold (embed_entry sh) its e) =
     e_fields e @ map (\<lambda>x. hd (e_fields (embed_entry sh x (e\<lparr>e_fields := []\<rparr>)))) its"
proof (induction its arbitrary: e)
  case Nil
  then show ?case by simp
next
  case (Cons x xs)
  show ?case
    by (cases x) (simp_all add: Cons.IH add_field_def)
qed

lemma ShopPage_init_embed:
  "ShopPage_init sh t d its ft os = Inr p \<Longrightarrow> embed p = create_embed sh t d its ft"
  by (cases its) (auto simp: ShopPage_init_def Let_def add_item_def split: if_splits)

lemma create_embed_fields:
  "e_fields (create_embed sh t d its ft) =
     map (\<lambda>x. hd (e_fields (embed_entry sh x
        \<lparr>e_title = t @ '' | '' @ s_title sh, e_description = d, e_fields = [],
         e_footer = None\<rparr>))) its"
  by (simp add: create_embed_def set_footer_def fold_embed_entry_fields)

lemma format_comma_d_1234: "format_comma_d 1234 = ''1,234''"
  by (simp add: format_comma_d_def str_nat.simps digit_char_def)

lemma ex_tools_page_init:
  "ShopPage_init ex_shop ''Tools'' ''All tools'' [Item ex_hammer, Item ex_saw] None None
     = Inr ex_tools_page"
  by (simp add: ex_tools_page_def ShopPage_init_def)

lemma ex_top_page_init:
  "ShopPage_init ex_shop ''Top'' ''Welcome'' [Category ex_tools] None None = Inr ex_top_page"
  by (simp add: ex_top_page_def ShopPage_init_def)

text \<open>Indexing the list of matches with \<^verbatim>\<open>[0]\<close> picks the first match.\<close>

lemma filter_find: "filter P l = x # r \<Longrightarrow> find P l = Some x"
  by (induction l) (auto split: if_splits)

subsection \<open>Page construction\<close>

text \<open>
  Claim C1, as stated: page construction succeeds on every non-empty homogeneous listing
  and fails on every empty and on every mixed listing. The constructor never inspects
  more than \<^verbatim>\<open>items[0]\<close>: on the listing of a category followed by an item it
  returns a page (with a \<^verbatim>\<open>CategorySelector\<close>), so the part about mixed listings
  does not hold.
\<close>

theorem ShopPage_init_mixed_succeeds:
  "mixed [Category ex_tools, Item ex_hammer] \<and>
   \<not> isl (ShopPage_init ex_shop ''Top'' ''Welcome'' [Category ex_tools, Item ex_hammer]
            None None)"
  by (simp add: mixed_def ShopPage_init_def)

text \<open>
  Claim C1, amended: construction fails on the empty listing, with the
  \<^verbatim>\<open>IndexError\<close> of \<^verbatim>\<open>items[0]\<close>, and succeeds on every non-empty listing,
  homogeneous or not; the page then holds exactly one control, a
  \<^verbatim>\<open>CategorySelector\<close> when the first element is a category and an
  \<^verbatim>\<open>ItemSelector\<close> otherwise.
\<close>

theorem ShopPage_init_succeeds_iff_nonempty:
  "ShopPage_init sh t d [] ft os = Inl IndexError \<and>
   (\<exists>p. ShopPage_init sh t d (x # r) ft os = Inr p \<and>
        children p = [if is_ShopCategory x then CategorySelector_init (x # r)
                      else ItemSelector_init (x # r) os])"
  by (simp add: ShopPage_init_def add_item_def)

subsection \<open>Unknown selections\<close>

text \<open>
  What both selector callbacks do on a value that is the id of no element of the
  listing: the list of matches is empty, its indexing with \<^verbatim>\<open>[0]\<close> raises
  \<^verbatim>\<open>IndexError\<close>, and nothing has been written by then.
\<close>

lemma unknown_selection_IndexError:
  assumes "v \<notin> entry_id ` set l"
  shows "CategorySelector_callback l v view s = (Some IndexError, s) \<and>
         ItemSelector_callback l os v s = (Some IndexError, s)"
proof -
  from assms have "filter (\<lambda>x. entry_id x = v) l = []"
    by (auto simp: filter_empty_conv)
  then show ?thesis
    by (simp add: CategorySelector_callback_def ItemSelector_callback_def)
qed

text \<open>
  Claim C2: a selection whose id is absent from the listing raises the unknown-selection
  error and leaves the session as it was. The code's unknown-selection error is the
  \<^verbatim>\<open>ValueError('No category found with ID:...')\<close> of
  \<^verbatim>\<open>CategorySelector.callback\<close>, but its guard stands after the indexing of the
  matches: on the listing of the Tools category and the chosen value \<^verbatim>\<open>zz\<close> the
  callback raises \<^verbatim>\<open>IndexError\<close>, not \<^verbatim>\<open>ValueError\<close>, and so does the
  \<^verbatim>\<open>ItemSelector\<close>, which has no guard, on the two tools. In both cases the
  session is returned unchanged.
\<close>

theorem unknown_selection_raises_IndexError_not_ValueError:
  "''zz'' \<notin> entry_id ` set [Category ex_tools] \<and>
   CategorySelector_callback [Category ex_tools] ''zz'' 1 ex_session
     = (Some IndexError, ex_session) \<and>
   fst (CategorySelector_callback [Category ex_tools] ''zz'' 1 ex_session) \<noteq> Some ValueError \<and>
   ''zz'' \<notin> entry_id ` set [Item ex_hammer, Item ex_saw] \<and>
   ItemSelector_callback [Item ex_hammer, Item ex_saw] on_select_default ''zz'' ex_session
     = (Some IndexError, ex_session)"
  by (simp add: CategorySelector_callback_def ItemSelector_callback_def ex_tools_def
      ex_hammer_def ex_saw_def)

subsection \<open>Navigation\<close>

text \<open>
  Claim C3: on a page that holds at most one back-control (every page does: the
  constructor gives none and \<^verbatim>\<open>navigate\<close> keeps the bound, see
  \<open>ShopPage_init_no_back\<close> and \<open>navigate_at_most_one_back\<close>), calling
  \<^verbatim>\<open>navigate()\<close> once, twice or any number of times \<open>n \<ge> 1\<close> on the same handler
  leaves \<^verbatim>\<open>to_page\<close> with exactly one back-control.
\<close>

theorem navigate_idempotent_back_control:
  assumes "length (back_controls (h (to_page nh))) \<le> 1" and "1 \<le> n"
  shows "length (back_controls (navigate_times n nh h (to_page nh))) = 1"
proof -
  from assms(2) obtain m where n: "n = Suc m" by (cases n) auto
  have "length (back_controls (fst (navigate nh h) (to_page nh))) = 1"
    using assms(1) by (rule navigate_back_one)
  then show ?thesis unfolding n by (simp add: navigate_times_back_one)
qed

theorem navigate_idempotent_back_control_witness:
  "length (back_controls (ex_heap (to_page \<lparr>to_page = 0, from_page = 1\<rparr>))) \<le> 1 \<and>
   (1::nat) \<le> 2 \<and>
   length (back_controls (navigate_times 2 \<lparr>to_page = 0, from_page = 1\<rparr> ex_heap
       (to_page \<lparr>to_page = 0, from_page = 1\<rparr>))) = 1"
proof -
  have a: "length (back_controls (ex_heap (to_page \<lparr>to_page = 0, from_page = 1\<rparr>))) \<le> 1"
    by (simp add: ex_heap_def ex_tools_page_no_back)
  have b: "(1::nat) \<le> 2" by simp
  show ?thesis
    using a b navigate_idempotent_back_control [of ex_heap "\<lparr>to_page = 0, from_page = 1\<rparr>" 2]
    by simp
qed

text \<open>
  Claim C4, as stated: \<^verbatim>\<open>go_back()\<close> after \<^verbatim>\<open>navigate()\<close> returns
  \<^verbatim>\<open>from_page\<close>, which neither call has modified, for every handler. A handler
  whose two pages are the same object (here the Tools page, reference 0, which has no
  back-control yet) gets its back-control appended to that very page by
  \<^verbatim>\<open>navigate()\<close>: the page \<^verbatim>\<open>go_back()\<close> returns is not as it was.
\<close>

theorem go_back_after_navigate_aliased_modified:
  "fst (go_back \<lparr>to_page = 0, from_page = 0\<rparr>
          (fst (navigate \<lparr>to_page = 0, from_page = 0\<rparr> ex_heap)))
     (from_page \<lparr>to_page = 0, from_page = 0\<rparr>)
   \<noteq> ex_heap (from_page \<lparr>to_page = 0, from_page = 0\<rparr>)"
proof -
  have "children (add_item (BackButton \<lparr>to_page = 0, from_page = 0\<rparr>) ex_tools_page)
          \<noteq> children ex_tools_page"
    by (simp add: add_item_def)
  then have "add_item (BackButton \<lparr>to_page = 0, from_page = 0\<rparr>) ex_tools_page \<noteq> ex_tools_page"
    by metis
  then show ?thesis
    by (simp add: go_back_def navigate_def ex_heap_def
        ex_tools_page_no_back [unfolded back_controls_def])
qed

text \<open>
  Claim C4, amended: \<^verbatim>\<open>go_back()\<close> after \<^verbatim>\<open>navigate()\<close> returns the very
  reference \<^verbatim>\<open>from_page\<close> given at construction, and \<^verbatim>\<open>go_back()\<close> writes nothing;
  the page behind \<^verbatim>\<open>from_page\<close> is unmodified by both calls whenever it is not the
  same object as \<^verbatim>\<open>to_page\<close>, or \<^verbatim>\<open>to_page\<close> already had a back-control.
\<close>

theorem go_back_after_navigate:
  "snd (go_back nh (fst (navigate nh h))) = from_page nh \<and>
   fst (go_back nh (fst (navigate nh h))) = fst (navigate nh h) \<and>
   (from_page nh \<noteq> to_page nh \<or> back_controls (h (to_page nh)) \<noteq> [] \<longrightarrow>
      fst (go_back nh (fst (navigate nh h))) (from_page nh) = h (from_page nh))"
  by (auto simp: go_back_def navigate_def back_controls_def)

theorem go_back_after_navigate_witness:
  "snd (go_back \<lparr>to_page = 0, from_page = 1\<rparr>
          (fst (navigate \<lparr>to_page = 0, from_page = 1\<rparr> ex_heap))) = 1 \<and>
   (1::nat) \<noteq> 0 \<and>
   fst (go_back \<lparr>to_page = 0, from_page = 1\<rparr>
          (fst (navigate \<lparr>to_page = 0, from_page = 1\<rparr> ex_heap))) 1 = ex_heap 1"
  using go_back_after_navigate [of "\<lparr>to_page = 0, from_page = 1\<rparr>" ex_heap] by auto

text \<open>
  Claim C5: let \<^verbatim>\<open>to_page\<close> \<open>t\<close>, with no back-control yet, be reached first by
  \<^verbatim>\<open>navigate()\<close> of a handler from page \<open>a\<close> and then by \<^verbatim>\<open>navigate()\<close> of another
  handler from page \<open>b\<close>. The second call adds nothing: the only back-control of \<open>t\<close> is
  the one bound to the first handler, and pressing any back-control of \<open>t\<close> shows page
  \<open>a\<close>, the first page it was bound to.
\<close>

theorem back_control_stays_with_first_from_page:
  assumes "back_controls (h t) = []"
  shows "back_controls (fst (navigate \<lparr>to_page = t, from_page = b\<rparr>
                          (fst (navigate \<lparr>to_page = t, from_page = a\<rparr> h))) t)
           = [BackButton \<lparr>to_page = t, from_page = a\<rparr>] \<and>
         (\<forall>c \<in> set (children (fst (navigate \<lparr>to_page = t, from_page = b\<rparr>
                          (fst (navigate \<lparr>to_page = t, from_page = a\<rparr> h))) t)).
            is_BackButton c \<longrightarrow> callback c v t s = (None, edit_message a s))"
  using assms
  by (auto simp: navigate_def back_controls_def add_item_def BackButton_callback_def
      go_back_def filter_empty_conv)

theorem back_control_stays_with_first_from_page_witness:
  "back_controls (ex_heap 0) = [] \<and>
   back_controls (fst (navigate \<lparr>to_page = 0, from_page = 2\<rparr>
                          (fst (navigate \<lparr>to_page = 0, from_page = 1\<rparr> ex_heap))) 0)
           = [BackButton \<lparr>to_page = 0, from_page = 1\<rparr>] \<and>
   BackButton \<lparr>to_page = 0, from_page = 1\<rparr>
     \<in> set (children (fst (navigate \<lparr>to_page = 0, from_page = 2\<rparr>
                          (fst (navigate \<lparr>to_page = 0, from_page = 1\<rparr> ex_heap))) 0)) \<and>
   is_BackButton (BackButton \<lparr>to_page = 0, from_page = 1\<rparr>) \<and>
   current (snd (callback (BackButton \<lparr>to_page = 0, from_page = 1\<rparr>) [] 0 ex_session)) = 1"
proof -
  have a: "back_controls (ex_heap 0) = []"
    by (simp add: ex_heap_def ex_tools_page_no_back)
  have b: "BackButton \<lparr>to_page = 0, from_page = 1\<rparr>
     \<in> set (children (fst (navigate \<lparr>to_page = 0, from_page = 2\<rparr>
                          (fst (navigate \<lparr>to_page = 0, from_page = 1\<rparr> ex_heap))) 0))"
    using a by (simp add: navigate_def add_item_def back_controls_def)
  show ?thesis
    using a b back_control_stays_with_first_from_page
      [where h = ex_heap and t = 0 and a = 1 and b = 2 and v = "[]" and s = ex_session]
    by (auto simp: edit_message_def)
qed

text \<open>
  Claim C10, as stated: \<^verbatim>\<open>navigate()\<close> changes nothing but the controls of
  \<^verbatim>\<open>to_page\<close>, and \<^verbatim>\<open>from_page\<close> is entirely unchanged. For a handler whose
  \<^verbatim>\<open>from_page\<close> is the same object as its \<^verbatim>\<open>to_page\<close> (here the top page,
  reference 1), the controls of \<^verbatim>\<open>from_page\<close> are not what they were.
\<close>

theorem navigate_aliased_from_page_changed:
  "children (fst (navigate \<lparr>to_page = 1, from_page = 1\<rparr> ex_heap)
               (from_page \<lparr>to_page = 1, from_page = 1\<rparr>))
   \<noteq> children (ex_heap (from_page \<lparr>to_page = 1, from_page = 1\<rparr>))"
  by (simp add: navigate_def ex_heap_def add_item_def
      ex_top_page_no_back [unfolded back_controls_def])

text \<open>
  Claim C10, amended: \<^verbatim>\<open>navigate()\<close> returns \<^verbatim>\<open>to_page\<close> and writes to no other
  page of the store; \<^verbatim>\<open>to_page\<close> is either untouched or has one
  \<^verbatim>\<open>BackButton\<close> bound to this handler appended to its controls, its shop, title,
  items, description, footer and embed being as before; \<^verbatim>\<open>from_page\<close> is entirely
  unchanged whenever it is not the same object as \<^verbatim>\<open>to_page\<close>.
\<close>

theorem navigate_frame:
  "snd (navigate nh h) = to_page nh \<and>
   (\<forall>r. r \<noteq> to_page nh \<longrightarrow> fst (navigate nh h) r = h r) \<and>
   (fst (navigate nh h) (to_page nh) = h (to_page nh) \<or>
    fst (navigate nh h) (to_page nh)
      = (h (to_page nh))\<lparr>children := children (h (to_page nh)) @ [BackButton nh]\<rparr>) \<and>
   shop (fst (navigate nh h) (to_page nh)) = shop (h (to_page nh)) \<and>
   title (fst (navigate nh h) (to_page nh)) = title (h (to_page nh)) \<and>
   items (fst (navigate nh h) (to_page nh)) = items (h (to_page nh)) \<and>
   description (fst (navigate nh h) (to_page nh)) = description (h (to_page nh)) \<and>
   footer (fst (navigate nh h) (to_page nh)) = footer (h (to_page nh)) \<and>
   embed (fst (navigate nh h) (to_page nh)) = embed (h (to_page nh)) \<and>
   (from_page nh \<noteq> to_page nh \<longrightarrow> fst (navigate nh h) (from_page nh) = h (from_page nh))"
  by (simp add: navigate_def add_item_def)

theorem navigate_frame_witness:
  "from_page \<lparr>to_page = 0, from_page = 1\<rparr> \<noteq> to_page \<lparr>to_page = 0, from_page = 1\<rparr> \<and>
   fst (navigate \<lparr>to_page = 0, from_page = 1\<rparr> ex_heap) 1 = ex_heap 1 \<and>
   (2::nat) \<noteq> to_page \<lparr>to_page = 0, from_page = 1\<rparr> \<and>
   fst (navigate \<lparr>to_page = 0, from_page = 1\<rparr> ex_heap) 2 = ex_heap 2 \<and>
   title (fst (navigate \<lparr>to_page = 0, from_page = 1\<rparr> ex_heap) 0) = title (ex_heap 0)"
  using navigate_frame [of "\<lparr>to_page = 0, from_page = 1\<rparr>" ex_heap] by auto

subsection \<open>Rendering\<close>

text \<open>
  Claim C6, as stated: the body of an item's field is the emphasized description, a
  rule as long as the description, and the quoted extra fields. For the item with
  description \<^verbatim>\<open>ab\<close> the rule has three hyphens, so the body is not the one the
  claim describes.
\<close>

theorem item_body_rule_not_description_length:
  "f_value (e_fields (embed ex_tools_page) ! 0) \<noteq>
     ''*'' @ i_description ex_hammer @ ''*'' @ newline
       @ replicate (length (i_description ex_hammer)) (CHR ''-'') @ newline
       @ join newline (map (\<lambda>x. ''> '' @ x) (i_fields ex_hammer)) \<and>
   length (i_description ex_hammer) = 2 \<and>
   f_value (e_fields (embed ex_tools_page) ! 0)
     = ''*ab*'' @ newline @ ''---'' @ newline @ ''> x'' @ newline @ ''> yz''"
  by (simp add: ex_tools_page_def ShopPage_init_def create_embed_def set_footer_def add_field_def
      add_item_def ex_hammer_def newline_def)

text \<open>
  Claim C6, amended: a page built from a listing has one field per element, in order.
  The field of an item has the label icon (or nothing), space, name,
  \<^verbatim>\<open> | \<close>, the price with thousands separators between backquotes, space, the shop's
  currency; its body is the description between asterisks, a line of hyphens one longer
  than the description, and the extra fields, each after \<^verbatim>\<open>> \<close>, one per line. The
  field of a category has the label icon (or nothing), space, name, and the body
  description (or nothing).
\<close>

theorem rendered_fields:
  assumes "ShopPage_init sh t d its ft os = Inr p" and "k < length its"
  shows "length (e_fields (embed p)) = length its \<and>
    (case its ! k of
       Item i \<Rightarrow>
         e_fields (embed p) ! k =
           \<lparr>f_name = or_empty (i_icon i) @ '' '' @ i_name i @ '' | `'' @ format_comma_d (price i)
                       @ ''` '' @ currency sh,
            f_value = ''*'' @ i_description i @ ''*'' @ newline
                       @ replicate (length (i_description i) + 1) (CHR ''-'') @ newline
                       @ join newline (map (\<lambda>x. ''> '' @ x) (i_fields i)),
            f_inline = False\<rparr>
     | Category c \<Rightarrow>
         e_fields (embed p) ! k =
           \<lparr>f_name = or_empty (c_icon c) @ '' '' @ c_name c,
            f_value = or_empty (c_description c),
            f_inline = False\<rparr>)"
  using assms
  by (cases "its ! k") (simp_all add: ShopPage_init_embed create_embed_fields add_field_def)

theorem rendered_fields_witness:
  "ShopPage_init ex_shop ''Tools'' ''All tools'' [Item ex_hammer, Item ex_saw] None None
     = Inr ex_tools_page \<and>
   (0::nat) < length [Item ex_hammer, Item ex_saw] \<and>
   length (e_fields (embed ex_tools_page)) = length [Item ex_hammer, Item ex_saw] \<and>
   e_fields (embed ex_tools_page) ! 0 =
     \<lparr>f_name = or_empty (i_icon ex_hammer) @ '' '' @ i_name ex_hammer @ '' | `''
                 @ format_comma_d (price ex_hammer) @ ''` '' @ currency ex_shop,
      f_value = ''*'' @ i_description ex_hammer @ ''*'' @ newline
                 @ replicate (length (i_description ex_hammer) + 1) (CHR ''-'') @ newline
                 @ join newline (map (\<lambda>x. ''> '' @ x) (i_fields ex_hammer)),
      f_inline = False\<rparr>"
proof -
  have a: "ShopPage_init ex_shop ''Tools'' ''All tools'' [Item ex_hammer, Item ex_saw] None None
     = Inr ex_tools_page" by (rule ex_tools_page_init)
  have b: "(0::nat) < length [Item ex_hammer, Item ex_saw]" by simp
  show ?thesis
    using a b rendered_fields [OF a b, simplified nth_Cons_0 entry.case] by blast
qed

text \<open>
  Claim C7: an item of price 1234 in a shop whose currency is \<^verbatim>\<open>gold\<close> is rendered
  with a label that ends in \<^verbatim>\<open> | `1,234` gold\<close>: it contains \<^verbatim>\<open>1,234\<close> and, after
  the price, \<^verbatim>\<open>gold\<close>.
\<close>

theorem price_label_1234_gold:
  assumes "ShopPage_init sh t d its ft os = Inr p" and "k < length its"
    and "its ! k = Item i" and "price i = 1234" and "currency sh = ''gold''"
  shows "f_name (e_fields (embed p) ! k)
           = or_empty (i_icon i) @ '' '' @ i_name i @ '' | `1,234` gold'' \<and>
         sublist ''1,234'' (f_name (e_fields (embed p) ! k)) \<and>
         sublist ''gold'' (f_name (e_fields (embed p) ! k))"
proof -
  have n: "f_name (e_fields (embed p) ! k)
           = or_empty (i_icon i) @ '' '' @ i_name i @ '' | `1,234` gold''"
    using assms
    by (simp add: ShopPage_init_embed create_embed_fields add_field_def format_comma_d_1234)
  have "sublist ''1,234''
          ((or_empty (i_icon i) @ '' '' @ i_name i @ '' | `'') @ ''1,234'' @ ''` gold'')"
    by (rule sublist_appendI)
  moreover have "sublist ''gold''
          ((or_empty (i_icon i) @ '' '' @ i_name i @ '' | `1,234` '') @ ''gold'' @ [])"
    by (rule sublist_appendI)
  ultimately show ?thesis by (simp add: n)
qed

theorem price_label_1234_gold_witness:
  "ShopPage_init ex_shop ''Tools'' ''All tools'' [Item ex_hammer, Item ex_saw] None None
     = Inr ex_tools_page \<and> (0::nat) < length [Item ex_hammer, Item ex_saw] \<and>
   [Item ex_hammer, Item ex_saw] ! 0 = Item ex_hammer \<and> price ex_hammer = 1234 \<and>
   currency ex_shop = ''gold'' \<and>
   f_name (e_fields (embed ex_tools_page) ! 0)
     = or_empty (i_icon ex_hammer) @ '' '' @ i_name ex_hammer @ '' | `1,234` gold'' \<and>
   sublist ''1,234'' (f_name (e_fields (embed ex_tools_page) ! 0)) \<and>
   sublist ''gold'' (f_name (e_fields (embed ex_tools_page) ! 0))"
proof -
  have a: "ShopPage_init ex_shop ''Tools'' ''All tools'' [Item ex_hammer, Item ex_saw] None None
     = Inr ex_tools_page" by (rule ex_tools_page_init)
  have b: "(0::nat) < length [Item ex_hammer, Item ex_saw]" by simp
  have c: "[Item ex_hammer, Item ex_saw] ! 0 = Item ex_hammer" by simp
  have d: "price ex_hammer = 1234" by (simp add: ex_hammer_def)
  have e: "currency ex_shop = ''gold''" by (simp add: ex_shop_def)
  show ?thesis using a b c d e price_label_1234_gold [OF a b c d e] by blast
qed

subsection \<open>Selections\<close>

text \<open>
  Claim C8: on a listing of items that has an element whose id is the chosen value, the
  callback of the \<^verbatim>\<open>ItemSelector\<close> completes and calls its handler with an item of
  the listing whose id is the chosen value (the first such): the caller's
  \<^verbatim>\<open>on_select\<close> when one was given, and otherwise the default handler, which sends
  the purchase acknowledgment naming that item.
\<close>

theorem item_selection_resolves:
  assumes "list_all is_ShopItem l" and "v \<in> entry_id ` set l"
  shows "\<exists>i. find (\<lambda>x. entry_id x = v) l = Some (Item i) \<and> Item i \<in> set l \<and> i_id i = v \<and>
           callback (ItemSelector_init l os) v view s =
             (None, case os of
                      None \<Rightarrow> send_message (''Succesfully purchased '' @ i_name i) s
                    | Some k \<Rightarrow> s\<lparr>trace := trace s @ [OnSelectCall k (Item i)]\<rparr>)"
proof -
  from assms(2) have "filter (\<lambda>x. entry_id x = v) l \<noteq> []"
    by (auto simp: filter_empty_conv)
  then obtain x r where f: "filter (\<lambda>x. entry_id x = v) l = x # r"
    by (cases "filter (\<lambda>x. entry_id x = v) l") auto
  then have "x \<in> set (filter (\<lambda>x. entry_id x = v) l)" by simp
  then have x: "x \<in> set l" "entry_id x = v" by auto
  with assms(1) obtain i where i: "x = Item i"
    by (cases x) (auto simp: list_all_iff)
  have "callback (ItemSelector_init l os) v view s =
             (None, case os of
                      None \<Rightarrow> send_message (''Succesfully purchased '' @ i_name i) s
                    | Some k \<Rightarrow> s\<lparr>trace := trace s @ [OnSelectCall k (Item i)]\<rparr>)"
    by (cases os)
       (simp_all add: ItemSelector_init_def ItemSelector_callback_def f i
          on_select_default_body_def)
  with filter_find [OF f] x i show ?thesis by auto
qed

theorem item_selection_resolves_witness:
  "list_all is_ShopItem [Item ex_hammer, Item ex_saw] \<and>
   ''b'' \<in> entry_id ` set [Item ex_hammer, Item ex_saw] \<and>
   (\<exists>i. find (\<lambda>x. entry_id x = ''b'') [Item ex_hammer, Item ex_saw] = Some (Item i) \<and>
        Item i \<in> set [Item ex_hammer, Item ex_saw] \<and> i_id i = ''b'' \<and>
        callback (ItemSelector_init [Item ex_hammer, Item ex_saw] None) ''b'' 0 ex_session =
          (None, send_message (''Succesfully purchased '' @ i_name i) ex_session))"
proof -
  have a: "list_all is_ShopItem [Item ex_hammer, Item ex_saw]" by simp
  have b: "''b'' \<in> entry_id ` set [Item ex_hammer, Item ex_saw]"
    by (simp add: ex_saw_def)
  show ?thesis
    using a b item_selection_resolves [OF a b, of None 0 ex_session] by simp
qed

text \<open>
  Claim C9: the guard \<^verbatim>\<open>if not selected_category: raise ValueError(...)\<close> of
  \<^verbatim>\<open>CategorySelector.callback\<close> is dead: on no listing, chosen value, view and
  session does the callback raise \<^verbatim>\<open>ValueError\<close>. Either no element matches and the
  indexing has already raised \<^verbatim>\<open>IndexError\<close>, or the selected element is a dataclass
  instance, which is truthy.
\<close>

theorem category_guard_unreachable:
  "fst (CategorySelector_callback l v view s) \<noteq> Some ValueError \<and>
   (filter (\<lambda>category. entry_id category = v) l = [] \<and>
      fst (CategorySelector_callback l v view s) = Some IndexError \<or>
    (\<exists>x r. filter (\<lambda>category. entry_id category = v) l = x # r \<and> truthy x))"
proof (cases "filter (\<lambda>category. entry_id category = v) l")
  case Nil
  then show ?thesis by (simp add: CategorySelector_callback_def)
next
  case (Cons x r)
  then show ?thesis
    by (cases x) (simp_all add: CategorySelector_callback_def Let_def split: prod.splits)
qed

end
